theory Spec2Isabelle
  imports Main "HOL-Library.Word"
begin

unbundle bit_operations_syntax

section \<open>Shared data model\<close>

type_synonym byte = "8 word"
type_synonym bytes = "byte list"
type_synonym uint32 = "32 word"
type_synonym uint64 = "64 word"

text \<open>db.InternalKey: the user key and the 8-byte trailer \<open>(seq << 8) | kind\<close>.\<close>

record InternalKey =
  UserKey :: bytes
  Trailer :: uint64

record fileMetadata =
  fileNum :: uint64
  size :: uint64
  smallest :: InternalKey
  largest :: InternalKey

definition zeroKey :: InternalKey where
  "zeroKey = \<lparr>UserKey = [], Trailer = 0\<rparr>"

text \<open>The Go zero value \<open>fileMetadata{}\<close>.\<close>

definition zeroMeta :: fileMetadata where
  "zeroMeta = \<lparr>fileNum = 0, size = 0, smallest = zeroKey, largest = zeroKey\<rparr>"



section \<open>Keys and their order (package db)\<close>

text \<open>
  Modelled from the spec: the package \<open>db\<close> (\<open>InternalKey\<close>, \<open>MakeInternalKey\<close>,
  \<open>MakeSearchKey\<close>, \<open>DecodeInternalKey\<close>, \<open>InternalCompare\<close>, \<open>SharedPrefixLen\<close>, the kinds)
  is not among the sources. The spec: an internal key is the user key followed by the
  8-byte little-endian trailer \<open>(seq << 8) | kind\<close>, with a 56-bit sequence number; keys are
  ordered by ascending user key under the comparator and, for equal user keys, by
  descending sequence number and kind, that is by descending trailer. \<open>Max\<close> is the sentinel
  kind, above every kind that is stored.
\<close>

definition InternalKeyKindMax :: byte where
  "InternalKeyKindMax = 17"

definition InternalKeySeqNumMax :: uint64 where
  "InternalKeySeqNumMax = 2 ^ 56 - 1"

definition MakeInternalKey :: "bytes \<Rightarrow> uint64 \<Rightarrow> byte \<Rightarrow> InternalKey" where
  "MakeInternalKey userKey seqNum kind =
     \<lparr>UserKey = userKey, Trailer = (push_bit 8 seqNum) OR ucast kind\<rparr>"

definition MakeSearchKey :: "bytes \<Rightarrow> InternalKey" where
  "MakeSearchKey userKey = MakeInternalKey userKey InternalKeySeqNumMax InternalKeyKindMax"

definition InternalCompare ::
  "(bytes \<Rightarrow> bytes \<Rightarrow> int) \<Rightarrow> InternalKey \<Rightarrow> InternalKey \<Rightarrow> int" where
  "InternalCompare userCmp a b =
     (let x = userCmp (UserKey a) (UserKey b)
      in if x \<noteq> 0 then x
         else if Trailer a < Trailer b then 1
         else if Trailer a > Trailer b then - 1
         else 0)"

text \<open>
  The comparator is the caller's. \<open>bytes_Compare\<close> is the bytewise one (Go's
  \<open>bytes.Compare\<close>), used for the concrete inputs.
\<close>

fun bytes_Compare :: "bytes \<Rightarrow> bytes \<Rightarrow> int" where
  "bytes_Compare [] [] = 0"
| "bytes_Compare [] (y # ys) = - 1"
| "bytes_Compare (x # xs) [] = 1"
| "bytes_Compare (x # xs) (y # ys) =
     (if x < y then - 1 else if y < x then 1 else bytes_Compare xs ys)"


section \<open>The version set (version\_set.go)\<close>

text \<open>
  Errors are values. \<open>ExtErr n\<close> stands for an error handed back by a collaborator
  (storage, record reader and writer, edit codec, bulk edit application); the other
  constructors are the errors the modelled code builds itself.
\<close>

datatype error =
    ExtErr nat
  | CouldNotOpenCurrent error
  | CurrentEmpty
  | CurrentTooLarge
  | CurrentMalformed
  | CouldNotOpenManifest error
  | ComparerMismatch string string
  | IncompleteManifest
  | MemtableEmpty
  | NegativeSize int
  | VersionInvariant

text \<open>A call either returns its error result (\<open>None\<close> is Go's \<open>nil\<close>) or panics.\<close>

datatype outcome = Returned "error option" | Panicked string

record versionEdit =
  comparatorName :: string
  logNumber :: uint64
  prevLogNumber :: uint64
  nextFileNumber :: uint64
  lastSequence :: uint64
  deletedFiles :: "(nat \<times> uint64) list"
  newFiles :: "(nat \<times> fileMetadata) list"

text \<open>
  A \<open>*version\<close> is a pointer: versions live in a store indexed by \<open>vref\<close>, and the
  version list holds references, oldest first.
\<close>

type_synonym vref = nat

record version =
  refs :: int
  files :: "fileMetadata list list"

record versionSet =
  dirname :: string
  cmpName :: string
  versions :: "vref list"
  logNumber :: uint64
  prevLogNumber :: uint64
  nextFileNumber :: uint64
  logSeqNum :: uint64
  visibleSeqNum :: uint64
  manifestFileNumber :: uint64
  manifestFile :: "uint64 option"
  manifest :: "uint64 option"

definition markFileNumUsed :: "versionSet \<Rightarrow> uint64 \<Rightarrow> versionSet" where
  "markFileNumUsed vs fnum =
     (if versionSet.nextFileNumber vs \<le> fnum
      then vs\<lparr>versionSet.nextFileNumber := fnum + 1\<rparr>
      else vs)"

definition nextFileNum :: "versionSet \<Rightarrow> uint64 \<times> versionSet" where
  "nextFileNum vs =
     (let x = versionSet.nextFileNumber vs
      in (x, vs\<lparr>versionSet.nextFileNumber := versionSet.nextFileNumber vs + 1\<rparr>))"

text \<open>
  A run of the two allocator operations, in the order given; the file numbers handed out
  by \<open>nextFileNum\<close> are collected in call order.
\<close>

datatype alloc_op = OpNext | OpMark uint64

fun run_alloc :: "alloc_op list \<Rightarrow> versionSet \<Rightarrow> uint64 list \<times> versionSet" where
  "run_alloc [] vs = ([], vs)"
| "run_alloc (OpNext # ops) vs =
     (case nextFileNum vs of (x, vs') \<Rightarrow>
        (case run_alloc ops vs' of (xs, vs'') \<Rightarrow> (x # xs, vs'')))"
| "run_alloc (OpMark n # ops) vs = run_alloc ops (markFileNumUsed vs n)"

text \<open>No operation of the run makes the 64-bit counter wrap around.\<close>

fun no_wrap :: "alloc_op list \<Rightarrow> versionSet \<Rightarrow> bool" where
  "no_wrap [] vs = True"
| "no_wrap (OpNext # ops) vs =
     (versionSet.nextFileNumber vs \<noteq> - 1 \<and> no_wrap ops (snd (nextFileNum vs)))"
| "no_wrap (OpMark n # ops) vs = (n \<noteq> - 1 \<and> no_wrap ops (markFileNumUsed vs n))"

text \<open>The zero value of the struct, as Go allocates it.\<close>

definition zeroVersionSet :: versionSet where
  "zeroVersionSet =
     \<lparr>dirname = [], cmpName = [], versions = [],
      versionSet.logNumber = 0, versionSet.prevLogNumber = 0,
      versionSet.nextFileNumber = 0, logSeqNum = 0, visibleSeqNum = 0,
      manifestFileNumber = 0, manifestFile = None, manifest = None\<rparr>"


subsection \<open>The version list and reference counts\<close>

text \<open>
  Modelled from the spec: \<open>versionList\<close> (\<open>init\<close>, \<open>empty\<close>, \<open>back\<close>, \<open>pushBack\<close>) and
  \<open>version.ref\<close>, \<open>version.unrefLocked\<close> are declared in a file that is not among the
  sources. The spec: versions form a doubly linked list, oldest at head, current at tail;
  each version holds a reference count; a version whose count reaches zero is unlinked.
  \<open>back\<close> of the empty list is the list's root sentinel, written \<open>None\<close>.
\<close>

definition empty_vl :: "vref list \<Rightarrow> bool" where
  "empty_vl l = (l = [])"

definition back_vl :: "vref list \<Rightarrow> vref option" where
  "back_vl l = (if l = [] then None else Some (last l))"

definition pushBack :: "vref list \<Rightarrow> vref \<Rightarrow> vref list" where
  "pushBack l v = l @ [v]"

text \<open>
  The state the version set's methods act on: the struct, the store of version objects
  with the next free reference, and the log of calls made to the storage and to the
  manifest writer, each with its result, oldest first.
\<close>

datatype fileType = fileTypeCurrent | fileTypeManifest | fileTypeTable | fileTypeLog

text \<open>
  Modelled from the spec: \<open>dbFilename\<close> is not among the sources; a file name is kept as
  the triple it is built from.
\<close>

type_synonym filename = "string \<times> fileType \<times> uint64"

definition dbFilename :: "string \<Rightarrow> fileType \<Rightarrow> uint64 \<Rightarrow> filename" where
  "dbFilename dir ft n = (dir, ft, n)"

datatype event =
    EvCreate filename
  | EvRemove filename
  | EvWriterNext uint64
  | EvEncode uint64 versionEdit
  | EvWriterFlush uint64
  | EvWriterClose uint64
  | EvFileSync uint64
  | EvFileClose uint64
  | EvSetCurrent string uint64
  | EvIterClose
  | EvTableAdd uint64 InternalKey bytes
  | EvTableClose uint64
  | EvTableStat uint64
  | EvTableCacheClose
  | EvLogClose
  | EvFileLockClose
  | EvCommitClose

record vworld =
  vset :: versionSet
  vstore :: "vref \<Rightarrow> version"
  vnext :: vref
  trace :: "(event \<times> error option) list"

text \<open>
  The collaborators: \<open>io_result\<close> answers a call given the calls made so far;
  \<open>apply_result\<close> is \<open>bulkVersionEdit.apply\<close> on the accumulated edits and the files of the
  base version; \<open>stat_size\<close> is the size \<open>Stat\<close> reports for the table with the given file
  number.
\<close>

record env =
  io_result :: "(event \<times> error option) list \<Rightarrow> event \<Rightarrow> error option"
  apply_result :: "versionEdit list \<Rightarrow> fileMetadata list list \<Rightarrow> error + fileMetadata list list"
  stat_size :: "uint64 \<Rightarrow> int"

definition do_io ::
  "env \<Rightarrow> event \<Rightarrow> 'a vworld_scheme \<Rightarrow> error option \<times> 'a vworld_scheme" where
  "do_io e ev w =
     (let r = io_result e (trace w) ev in (r, w\<lparr>trace := trace w @ [(ev, r)]\<rparr>))"

definition ref :: "'a vworld_scheme \<Rightarrow> vref \<Rightarrow> 'a vworld_scheme" where
  "ref w v = w\<lparr>vstore := (vstore w)(v := (vstore w v)\<lparr>refs := refs (vstore w v) + 1\<rparr>)\<rparr>"

definition unrefLocked :: "'a vworld_scheme \<Rightarrow> vref \<Rightarrow> 'a vworld_scheme" where
  "unrefLocked w v =
     (let n = refs (vstore w v) - 1;
          w' = w\<lparr>vstore := (vstore w)(v := (vstore w v)\<lparr>refs := n\<rparr>)\<rparr>
      in if n = 0
         then w'\<lparr>vset := (vset w')\<lparr>versions := remove1 v (versions (vset w'))\<rparr>\<rparr>
         else w')"

text \<open>A new version object with no references, as \<open>bulkVersionEdit.apply\<close> returns it.\<close>

definition new_version :: "vworld \<Rightarrow> fileMetadata list list \<Rightarrow> vref \<times> vworld" where
  "new_version w fs =
     (vnext w,
      w\<lparr>vstore := (vstore w)(vnext w := \<lparr>refs = 0, files = fs\<rparr>), vnext := vnext w + 1\<rparr>)"

subsection \<open>append and currentVersion\<close>

definition currentVersion :: "versionSet \<Rightarrow> vref option" where
  "currentVersion vs = back_vl (versions vs)"

definition append_vs :: "vworld \<Rightarrow> vref \<Rightarrow> string + vworld" where
  "append_vs w v =
     (if refs (vstore w v) \<noteq> 0 then Inl ''pebble: version should be unreferenced''
      else
        let w1 = (if \<not> empty_vl (versions (vset w))
                  then (case back_vl (versions (vset w)) of
                          None \<Rightarrow> w
                        | Some b \<Rightarrow> unrefLocked w b)
                  else w);
            w2 = ref w1 v
        in Inr (w2\<lparr>vset := (vset w2)\<lparr>versions := pushBack (versions (vset w2)) v\<rparr>\<rparr>))"

definition current_files :: "vworld \<Rightarrow> fileMetadata list list" where
  "current_files w =
     (case currentVersion (vset w) of None \<Rightarrow> [] | Some v \<Rightarrow> files (vstore w v))"


subsection \<open>createManifest and logAndApply\<close>

text \<open>
  The deferred function of \<open>createManifest\<close> on a path where the file was created and an
  error is returned: close the writer, sync and close the file, remove the file. The
  results of the four calls are dropped, as in the source.
\<close>

definition createManifest_cleanup :: "env \<Rightarrow> uint64 \<Rightarrow> filename \<Rightarrow> vworld \<Rightarrow> vworld" where
  "createManifest_cleanup e n fname w =
     (let w1 = snd (do_io e (EvWriterClose n) w);
          w2 = snd (do_io e (EvFileSync n) w1);
          w3 = snd (do_io e (EvFileClose n) w2)
      in snd (do_io e (EvRemove fname) w3))"

definition snapshot_files :: "fileMetadata list list \<Rightarrow> (nat \<times> fileMetadata) list" where
  "snapshot_files fss =
     concat (map (\<lambda>(level, fs). map (\<lambda>m. (level, m)) fs) (enumerate 0 fss))"

definition createManifest :: "env \<Rightarrow> string \<Rightarrow> vworld \<Rightarrow> error option \<times> vworld" where
  "createManifest e dir w =
     (let n = manifestFileNumber (vset w);
          fname = dbFilename dir fileTypeManifest n
      in case do_io e (EvCreate fname) w of
           (Some err, w1) \<Rightarrow> (Some err, snd (do_io e (EvRemove fname) w1))
         | (None, w1) \<Rightarrow>
             let snapshot =
                   \<lparr>comparatorName = cmpName (vset w1),
                    versionEdit.logNumber = 0, versionEdit.prevLogNumber = 0,
                    versionEdit.nextFileNumber = 0, lastSequence = 0,
                    deletedFiles = [], newFiles = snapshot_files (current_files w1)\<rparr>
             in (case do_io e (EvWriterNext n) w1 of
                   (Some err1, w2) \<Rightarrow> (Some err1, createManifest_cleanup e n fname w2)
                 | (None, w2) \<Rightarrow>
                     (case do_io e (EvEncode n snapshot) w2 of
                        (Some err, w3) \<Rightarrow> (Some err, createManifest_cleanup e n fname w3)
                      | (None, w3) \<Rightarrow>
                          (None, w3\<lparr>vset := (vset w3)\<lparr>manifest := Some n, manifestFile := Some n\<rparr>\<rparr>))))"

text \<open>One fallible call in a chain: on an error the chain returns it at once.\<close>

definition io_then ::
  "env \<Rightarrow> event \<Rightarrow> (vworld \<Rightarrow> outcome \<times> vworld) \<Rightarrow> vworld \<Rightarrow> outcome \<times> vworld" where
  "io_then e ev k w =
     (case do_io e ev w of
        (Some err, w') \<Rightarrow> (Returned (Some err), w')
      | (None, w') \<Rightarrow> k w')"

text \<open>The last lines of \<open>logAndApply\<close>: install the new version, take over the log numbers.\<close>

definition install :: "versionEdit \<Rightarrow> vref \<Rightarrow> vworld \<Rightarrow> outcome \<times> vworld" where
  "install ve newVersion w =
     (case append_vs w newVersion of
        Inl msg \<Rightarrow> (Panicked msg, w)
      | Inr w1 \<Rightarrow>
          let vs1 = (if versionEdit.logNumber ve \<noteq> 0
                     then (vset w1)\<lparr>versionSet.logNumber := versionEdit.logNumber ve\<rparr>
                     else vset w1);
              vs2 = (if versionEdit.prevLogNumber ve \<noteq> 0
                     then vs1\<lparr>versionSet.prevLogNumber := versionEdit.prevLogNumber ve\<rparr>
                     else vs1)
          in (Returned None, w1\<lparr>vset := vs2\<rparr>))"

text \<open>
  From \<open>vs.manifest.Next()\<close> on. A nil \<open>vs.manifest\<close> or \<open>vs.manifestFile\<close> here is a nil
  dereference.
\<close>

definition write_and_install ::
  "env \<Rightarrow> string \<Rightarrow> versionEdit \<Rightarrow> vref \<Rightarrow> vworld \<Rightarrow> outcome \<times> vworld" where
  "write_and_install e dir ve newVersion w =
     (case manifest (vset w) of
        None \<Rightarrow> (Panicked ''nil pointer dereference'', w)
      | Some m \<Rightarrow>
          io_then e (EvWriterNext m)
            (io_then e (EvEncode m ve)
               (io_then e (EvWriterFlush m)
                  (\<lambda>w3. case manifestFile (vset w3) of
                           None \<Rightarrow> (Panicked ''nil pointer dereference'', w3)
                         | Some f \<Rightarrow>
                             io_then e (EvFileSync f)
                               (io_then e (EvSetCurrent dir (manifestFileNumber (vset w3)))
                                  (install ve newVersion)) w3))) w)"

definition logAndApply ::
  "env \<Rightarrow> string \<Rightarrow> vworld \<Rightarrow> versionEdit \<Rightarrow> outcome \<times> vworld \<times> versionEdit" where
  "logAndApply e dir w ve =
     (if versionEdit.logNumber ve \<noteq> 0 \<and>
         (versionEdit.logNumber ve < versionSet.logNumber (vset w) \<or>
          versionSet.nextFileNumber (vset w) \<le> versionEdit.logNumber ve)
      then (Panicked ''pebble: inconsistent versionEdit logNumber'', w, ve)
      else
        let ve1 = ve\<lparr>versionEdit.nextFileNumber := versionSet.nextFileNumber (vset w),
                     lastSequence := logSeqNum (vset w)\<rparr>
        in case apply_result e [ve1] (current_files w) of
             Inl err \<Rightarrow> (Returned (Some err), w, ve1)
           | Inr fs \<Rightarrow>
               (case new_version w fs of
                  (newVersion, w0) \<Rightarrow>
                    (case (if manifest (vset w0) = None then createManifest e dir w0
                           else (None, w0)) of
                       (Some err, w1) \<Rightarrow> (Returned (Some err), w1, ve1)
                     | (None, w1) \<Rightarrow>
                         (case write_and_install e dir ve1 newVersion w1 of
                            (r, w2) \<Rightarrow> (r, w2, ve1)))))"

subsection \<open>load\<close>

text \<open>
  What \<open>load\<close> reads. \<open>current_file\<close> is the result of opening CURRENT: an error, or the
  file's content, whose length is the size \<open>Stat\<close> reports. \<open>manifest_file\<close> is the result
  of opening the manifest named there: an error, or the records its reader yields before
  \<open>io.EOF\<close>, each a reader error, a decoding error or a decoded edit.
\<close>

datatype rec_item = RecErr error | RecDecodeErr error | RecEdit versionEdit

record load_env =
  current_file :: "error + bytes"
  current_stat_err :: "error option"
  current_read_err :: "error option"
  manifest_file :: "string \<Rightarrow> bytes \<Rightarrow> error + rec_item list"

text \<open>The loop over the manifest's records; the bulk edit is the list of edits accumulated.\<close>

fun replay ::
  "rec_item list \<Rightarrow> versionEdit list \<Rightarrow> versionSet \<Rightarrow> error option \<times> versionEdit list \<times> versionSet" where
  "replay [] bve vs = (None, bve, vs)"
| "replay (RecErr err # rs) bve vs = (Some err, bve, vs)"
| "replay (RecDecodeErr err # rs) bve vs = (Some err, bve, vs)"
| "replay (RecEdit ve # rs) bve vs =
     (if comparatorName ve \<noteq> [] \<and> comparatorName ve \<noteq> cmpName vs
      then (Some (ComparerMismatch (comparatorName ve) (cmpName vs)), bve, vs)
      else
        let vs1 = (if versionEdit.logNumber ve \<noteq> 0
                   then vs\<lparr>versionSet.logNumber := versionEdit.logNumber ve\<rparr> else vs);
            vs2 = (if versionEdit.prevLogNumber ve \<noteq> 0
                   then vs1\<lparr>versionSet.prevLogNumber := versionEdit.prevLogNumber ve\<rparr> else vs1);
            vs3 = (if versionEdit.nextFileNumber ve \<noteq> 0
                   then vs2\<lparr>versionSet.nextFileNumber := versionEdit.nextFileNumber ve\<rparr> else vs2);
            vs4 = (if lastSequence ve \<noteq> 0
                   then vs3\<lparr>logSeqNum := lastSequence ve\<rparr> else vs3)
        in replay rs (bve @ [ve]) vs4)"

text \<open>After the check that follows the loop, to the end of \<open>load\<close>.\<close>

definition load_install :: "env \<Rightarrow> versionEdit list \<Rightarrow> vworld \<Rightarrow> outcome \<times> vworld" where
  "load_install e bve w =
     (let vs1 = markFileNumUsed (vset w) (versionSet.logNumber (vset w));
          vs2 = markFileNumUsed vs1 (versionSet.prevLogNumber vs1)
      in case nextFileNum vs2 of
           (x, vs3) \<Rightarrow>
             let w1 = w\<lparr>vset := vs3\<lparr>manifestFileNumber := x\<rparr>\<rparr>
             in (case apply_result e bve [] of
                   Inl err \<Rightarrow> (Returned (Some err), w1)
                 | Inr fs \<Rightarrow>
                     (case new_version w1 fs of
                        (newVersion, w2) \<Rightarrow>
                          (case append_vs w2 newVersion of
                             Inl msg \<Rightarrow> (Panicked msg, w2)
                           | Inr w3 \<Rightarrow> (Returned None, w3)))))"

text \<open>The check after the loop.\<close>

definition load_finish :: "env \<Rightarrow> versionEdit list \<Rightarrow> vworld \<Rightarrow> outcome \<times> vworld" where
  "load_finish e bve w =
     (if versionSet.logNumber (vset w) = 0 \<or> versionSet.nextFileNumber (vset w) = 0
      then (if versionSet.nextFileNumber (vset w) = 2
            then load_install e bve w
            else (Returned (Some IncompleteManifest), w))
      else load_install e bve w)"

definition load :: "env \<Rightarrow> load_env \<Rightarrow> string \<Rightarrow> string \<Rightarrow> vworld \<Rightarrow> outcome \<times> vworld" where
  "load e le dir optCmpName w =
     (let w0 = w\<lparr>vset := (vset w)\<lparr>dirname := dir, cmpName := optCmpName, versions := [],
                                    versionSet.nextFileNumber := 2\<rparr>\<rparr>
      in case current_file le of
           Inl err \<Rightarrow> (Returned (Some (CouldNotOpenCurrent err)), w0)
         | Inr content \<Rightarrow>
             (case current_stat_err le of
                Some err \<Rightarrow> (Returned (Some err), w0)
              | None \<Rightarrow>
                  let n = int (length content) in
                  if n = 0 then (Returned (Some CurrentEmpty), w0)
                  else if n > 4096 then (Returned (Some CurrentTooLarge), w0)
                  else
                    (case current_read_err le of
                       Some err \<Rightarrow> (Returned (Some err), w0)
                     | None \<Rightarrow>
                         if last content \<noteq> 10 then (Returned (Some CurrentMalformed), w0)
                         else
                           let b = butlast content in
                           (case manifest_file le dir b of
                              Inl err \<Rightarrow> (Returned (Some (CouldNotOpenManifest err)), w0)
                            | Inr recs \<Rightarrow>
                                (case replay recs [] (vset w0) of
                                   (Some err, bve, vs) \<Rightarrow> (Returned (Some err), w0\<lparr>vset := vs\<rparr>)
                                 | (None, bve, vs) \<Rightarrow> load_finish e bve (w0\<lparr>vset := vs\<rparr>))))))"

subsection \<open>Applying a bulk edit\<close>

text \<open>
  Modelled from the spec: \<open>bulkVersionEdit.apply\<close> is not among the sources, and the code
  above takes it from the environment. The spec: a version is an array of levels, each a
  sequence of file metadata; level 0 files may overlap and are ordered by file number,
  newest first; the files of a level above 0 are disjoint and sorted ascending by smallest
  key; applying an edit removes its deleted files, adds its new files, and fails if the
  result violates the level invariants. \<open>numLevels\<close> is 7.
\<close>

definition numLevels :: nat where
  "numLevels = 7"

fun insert_by :: "('a \<Rightarrow> 'a \<Rightarrow> bool) \<Rightarrow> 'a \<Rightarrow> 'a list \<Rightarrow> 'a list" where
  "insert_by le x [] = [x]"
| "insert_by le x (y # ys) = (if le x y then x # y # ys else y # insert_by le x ys)"

definition sort_by :: "('a \<Rightarrow> 'a \<Rightarrow> bool) \<Rightarrow> 'a list \<Rightarrow> 'a list" where
  "sort_by le xs = foldr (insert_by le) xs []"

text \<open>Each file of the sequence ends before the next one starts.\<close>

fun disjoint_ascending :: "(bytes \<Rightarrow> bytes \<Rightarrow> int) \<Rightarrow> fileMetadata list \<Rightarrow> bool" where
  "disjoint_ascending userCmp (a # b # rest) =
     (InternalCompare userCmp (largest a) (smallest b) < 0 \<and>
      disjoint_ascending userCmp (b # rest))"
| "disjoint_ascending userCmp _ = True"

definition level_files ::
  "versionEdit list \<Rightarrow> fileMetadata list list \<Rightarrow> nat \<Rightarrow> fileMetadata list" where
  "level_files bve base l =
     filter (\<lambda>m. (l, fileNum m) \<notin> set (concat (map deletedFiles bve)))
       ((if l < length base then base ! l else []) @
        map snd (filter (\<lambda>lm. fst lm = l) (concat (map newFiles bve))))"

definition spec_apply ::
  "(bytes \<Rightarrow> bytes \<Rightarrow> int) \<Rightarrow> versionEdit list \<Rightarrow> fileMetadata list list \<Rightarrow>
     error + fileMetadata list list" where
  "spec_apply userCmp bve base =
     (let v = map (\<lambda>l. if l = 0
                       then sort_by (\<lambda>a b. fileNum b \<le> fileNum a) (level_files bve base l)
                       else sort_by (\<lambda>a b. InternalCompare userCmp (smallest a) (smallest b) \<le> 0)
                              (level_files bve base l))
                [0..<numLevels]
      in if list_all (disjoint_ascending userCmp) (tl v) then Inr v else Inl VersionInvariant)"

subsection \<open>Vocabulary for the statements about logAndApply\<close>








subsection \<open>Concrete inputs for the version set\<close>

definition zeroEdit :: versionEdit where
  "zeroEdit =
     \<lparr>comparatorName = [], versionEdit.logNumber = 0, versionEdit.prevLogNumber = 0,
      versionEdit.nextFileNumber = 0, lastSequence = 0, deletedFiles = [], newFiles = []\<rparr>"

text \<open>
  A version set whose list holds version 0 with one reference, log number 3 and next file
  number 5; no manifest is open.
\<close>

definition demo_world :: vworld where
  "demo_world =
     \<lparr>vset = zeroVersionSet\<lparr>versions := [0], versionSet.logNumber := 3,
                              versionSet.nextFileNumber := 5\<rparr>,
      vstore = (\<lambda>_. \<lparr>refs = 0, files = []\<rparr>)(0 := \<lparr>refs = 1, files = []\<rparr>),
      vnext = 1,
      trace = []\<rparr>"

text \<open>Collaborators that never fail; the bulk edit leaves the base files as they are.\<close>

definition demo_env :: env where
  "demo_env = \<lparr>io_result = (\<lambda>_ _. None), apply_result = (\<lambda>_ fs. Inr fs),
      stat_size = (\<lambda>_. 100)\<rparr>"

text \<open>Collaborators that never fail on a call, with the spec's bulk edit application.\<close>

definition spec_env :: env where
  "spec_env =
     \<lparr>io_result = (\<lambda>_ _. None), apply_result = spec_apply bytes_Compare,
      stat_size = (\<lambda>_. 100)\<rparr>"


text \<open>A newly allocated version set, and the store with no version in use.\<close>

definition fresh_world :: vworld where
  "fresh_world =
     \<lparr>vset = zeroVersionSet, vstore = (\<lambda>_. \<lparr>refs = 0, files = []\<rparr>), vnext = 0, trace = []\<rparr>"

text \<open>
  A CURRENT file of two bytes, \<open>M\<close> and a newline, naming a manifest whose only record
  is an edit that carries the comparator name and nothing else.
\<close>

definition snapshot_only_files :: load_env where
  "snapshot_only_files =
     \<lparr>current_file = Inr [0x4D, 0x0A], current_stat_err = None, current_read_err = None,
      manifest_file = (\<lambda>_ _. Inr [RecEdit (zeroEdit\<lparr>comparatorName := ''cmp''\<rparr>)])\<rparr>"

text \<open>The same, with a manifest whose only record sets the next file number to 7.\<close>

definition no_log_number_files :: load_env where
  "no_log_number_files =
     \<lparr>current_file = Inr [0x4D, 0x0A], current_stat_err = None, current_read_err = None,
      manifest_file = (\<lambda>_ _. Inr [RecEdit (zeroEdit\<lparr>versionEdit.nextFileNumber := 7\<rparr>)])\<rparr>"


text \<open>
  Two level 1 files with overlapping key ranges: file 4 spans the user keys \<open>a\<close> to \<open>c\<close>,
  file 5 spans \<open>b\<close> to \<open>d\<close>.
\<close>

definition file4 :: fileMetadata where
  "file4 = \<lparr>fileNum = 4, size = 10,
             smallest = \<lparr>UserKey = [0x61], Trailer = 0x101\<rparr>,
             largest = \<lparr>UserKey = [0x63], Trailer = 0x101\<rparr>\<rparr>"

definition file5 :: fileMetadata where
  "file5 = \<lparr>fileNum = 5, size = 10,
             smallest = \<lparr>UserKey = [0x62], Trailer = 0x201\<rparr>,
             largest = \<lparr>UserKey = [0x64], Trailer = 0x201\<rparr>\<rparr>"

text \<open>
  A CURRENT file naming a manifest whose only record carries the comparator name and
  adds the two files to level 1; it sets no log number and no next file number.
\<close>

definition overlapping_files :: load_env where
  "overlapping_files =
     \<lparr>current_file = Inr [0x4D, 0x0A], current_stat_err = None, current_read_err = None,
      manifest_file =
        (\<lambda>_ _. Inr [RecEdit (zeroEdit\<lparr>comparatorName := ''cmp'',
                                          newFiles := [(1, file4), (1, file5)]\<rparr>)])\<rparr>"


section \<open>The DB (db.go)\<close>

text \<open>
  The part of \<open>DB\<close> the modelled methods read and write, as an extension of the version
  set's state: \<open>vset\<close> is \<open>d.mu.versions\<close>. \<open>queue\<close> is \<open>d.mu.mem.queue\<close>, its memtables
  of a type left open; \<open>disk\<close> holds the names of the files the storage has. The mutex is
  not modelled: the methods run one at a time.
\<close>

record 'm DB = vworld +
  dirname :: string
  closed :: bool
  queue :: "'m list"
  flushing :: bool
  compacting :: bool
  pendingOutputs :: "uint64 set"
  disk :: "filename set"

definition firstError :: "error option \<Rightarrow> error option \<Rightarrow> error option" where
  "firstError err0 err1 = (if err0 \<noteq> None then err0 else err1)"

subsection \<open>Close\<close>


subsection \<open>Get\<close>




subsection \<open>writeLevel0Table\<close>

text \<open>\<open>fs.Create\<close> and \<open>fs.Remove\<close>: a call that succeeds adds or removes the file.\<close>

definition fs_Create :: "env \<Rightarrow> filename \<Rightarrow> 'm DB \<Rightarrow> error option \<times> 'm DB" where
  "fs_Create e fname d =
     (case do_io e (EvCreate fname) d of
        (None, d') \<Rightarrow> (None, d'\<lparr>disk := insert fname (disk d')\<rparr>)
      | (Some err, d') \<Rightarrow> (Some err, d'))"

definition fs_Remove :: "env \<Rightarrow> filename \<Rightarrow> 'm DB \<Rightarrow> error option \<times> 'm DB" where
  "fs_Remove e fname d =
     (case do_io e (EvRemove fname) d of
        (None, d') \<Rightarrow> (None, d'\<lparr>disk := disk d' - {fname}\<rparr>)
      | (Some err, d') \<Rightarrow> (Some err, d'))"

text \<open>
  The loop that adds the iterator's entries to the table, from the entry the iterator
  stands on: \<open>meta.largest\<close> is set before each \<open>Add\<close>, and a failing \<open>Add\<close> returns.
\<close>

fun add_entries ::
  "env \<Rightarrow> uint64 \<Rightarrow> (InternalKey \<times> bytes) list \<Rightarrow> fileMetadata \<Rightarrow> 'm DB \<Rightarrow>
     error option \<times> fileMetadata \<times> 'm DB" where
  "add_entries e n [] meta d = (None, meta, d)"
| "add_entries e n ((k, v) # rest) meta d =
     (let meta1 = meta\<lparr>largest := k\<rparr>
      in case do_io e (EvTableAdd n k v) d of
           (Some err1, d') \<Rightarrow> (Some err1, meta1, d')
         | (None, d') \<Rightarrow> add_entries e n rest meta1 d')"

text \<open>
  What the deferred functions see when the body returns: the named results, and whether
  \<open>iter\<close> and \<open>tw\<close> are not nil.
\<close>

record frame =
  f_meta :: fileMetadata
  f_err :: "error option"
  f_iter :: bool
  f_tw :: bool

text \<open>
  The body from \<open>iter.First()\<close> to the return statements. The iterator is the list of the
  memtable's entries in order; it is valid after \<open>First\<close> when the list is not empty.
\<close>

definition writeLevel0Table_body ::
  "env \<Rightarrow> (InternalKey \<times> bytes) list \<Rightarrow> uint64 \<Rightarrow> filename \<Rightarrow> 'm DB \<Rightarrow> frame \<times> 'm DB" where
  "writeLevel0Table_body e entries n fname d =
     (if entries = []
      then (\<lparr>f_meta = zeroMeta, f_err = Some MemtableEmpty, f_iter = True, f_tw = False\<rparr>, d)
      else
        case fs_Create e fname d of
          (Some err, d1) \<Rightarrow>
            (\<lparr>f_meta = zeroMeta, f_err = Some err, f_iter = True, f_tw = False\<rparr>, d1)
        | (None, d1) \<Rightarrow>
            let meta1 = zeroMeta\<lparr>fileNum := n, smallest := fst (hd entries)\<rparr>
            in (case add_entries e n entries meta1 d1 of
                  (Some err1, meta2, d2) \<Rightarrow>
                    (\<lparr>f_meta = zeroMeta, f_err = Some err1, f_iter = True, f_tw = True\<rparr>, d2)
                | (None, meta2, d2) \<Rightarrow>
                    (case do_io e EvIterClose d2 of
                       (Some err1, d3) \<Rightarrow>
                         (\<lparr>f_meta = zeroMeta, f_err = Some err1, f_iter = False, f_tw = True\<rparr>, d3)
                     | (None, d3) \<Rightarrow>
                         (case do_io e (EvTableClose n) d3 of
                            (Some err1, d4) \<Rightarrow>
                              (\<lparr>f_meta = zeroMeta, f_err = Some err1, f_iter = False,
                                f_tw = False\<rparr>, d4)
                          | (None, d4) \<Rightarrow>
                              (case do_io e (EvTableStat n) d4 of
                                 (Some err, d5) \<Rightarrow>
                                   (\<lparr>f_meta = zeroMeta, f_err = Some err, f_iter = False,
                                     f_tw = True\<rparr>, d5)
                               | (None, d5) \<Rightarrow>
                                   let sz = stat_size e n in
                                   if sz < 0
                                   then (\<lparr>f_meta = zeroMeta, f_err = Some (NegativeSize sz),
                                          f_iter = False, f_tw = True\<rparr>, d5)
                                   else (\<lparr>f_meta = meta2\<lparr>size := word_of_int sz\<rparr>,
                                          f_err = None, f_iter = False, f_tw = False\<rparr>, d5))))))"

text \<open>
  The deferred functions, last registered first: close what is still open and, on an
  error, remove the file and clear \<open>meta\<close>; then (after the mutex is taken again) on an
  error delete the file number from \<open>pendingOutputs\<close>.
\<close>

definition writeLevel0Table_deferred ::
  "env \<Rightarrow> uint64 \<Rightarrow> filename \<Rightarrow> frame \<times> 'm DB \<Rightarrow> (fileMetadata \<times> error option) \<times> 'm DB" where
  "writeLevel0Table_deferred e n fname fd =
     (case fd of
        (fr, d) \<Rightarrow>
          (case (if f_iter fr
                 then (case do_io e EvIterClose d of (r, d') \<Rightarrow> (firstError (f_err fr) r, d'))
                 else (f_err fr, d)) of
             (err1, d1) \<Rightarrow>
               (case (if f_tw fr
                      then (case do_io e (EvTableClose n) d1 of
                              (r, d') \<Rightarrow> (firstError err1 r, d'))
                      else (err1, d1)) of
                  (err2, d2) \<Rightarrow>
                    (case (if err2 \<noteq> None
                           then (zeroMeta, snd (fs_Remove e fname d2))
                           else (f_meta fr, d2)) of
                       (meta, d3) \<Rightarrow>
                         ((meta, err2),
                          (if err2 \<noteq> None
                           then d3\<lparr>pendingOutputs := pendingOutputs d3 - {n}\<rparr>
                           else d3))))))"

definition writeLevel0Table ::
  "env \<Rightarrow> (InternalKey \<times> bytes) list \<Rightarrow> 'm DB \<Rightarrow> (fileMetadata \<times> error option) \<times> 'm DB" where
  "writeLevel0Table e entries d =
     (case nextFileNum (vset d) of
        (n, vs') \<Rightarrow>
          let fname = dbFilename (DB.dirname d) fileTypeTable n;
              d1 = d\<lparr>vset := vs', pendingOutputs := insert n (pendingOutputs d)\<rparr>
          in writeLevel0Table_deferred e n fname (writeLevel0Table_body e entries n fname d1))"


subsection \<open>Concrete inputs for the DB\<close>






section \<open>Properties of the version set\<close>

subsection \<open>File numbers\<close>

lemma word64_less_succ: "(x::uint64) \<noteq> - 1 \<Longrightarrow> x < x + 1"
  using inc_less_eq_self_iff_eq[of x] by (simp add: not_le)

lemma markFileNumUsed_gt:
  "n \<noteq> - 1 \<Longrightarrow> n < versionSet.nextFileNumber (markFileNumUsed vs n)"
  by (auto simp: markFileNumUsed_def word64_less_succ)

lemma markFileNumUsed_mono:
  "n \<noteq> - 1 \<Longrightarrow>
   versionSet.nextFileNumber vs \<le> versionSet.nextFileNumber (markFileNumUsed vs n)"
  using word64_less_succ[of n] by (auto simp: markFileNumUsed_def)

lemma markFileNumUsed_same:
  "n < versionSet.nextFileNumber vs \<Longrightarrow> markFileNumUsed vs n = vs"
  by (auto simp: markFileNumUsed_def)

lemma run_alloc_mono:
  "no_wrap ops vs \<Longrightarrow>
   sorted_wrt (<) (fst (run_alloc ops vs)) \<and>
   (\<forall>x \<in> set (fst (run_alloc ops vs)).
      versionSet.nextFileNumber vs \<le> x \<and>
      x < versionSet.nextFileNumber (snd (run_alloc ops vs))) \<and>
   versionSet.nextFileNumber vs \<le> versionSet.nextFileNumber (snd (run_alloc ops vs))"
proof (induction ops vs rule: run_alloc.induct)
  case (1 vs)
  then show ?case by simp
next
  case (2 ops vs)
  let ?vs' = "snd (nextFileNum vs)"
  have nw: "versionSet.nextFileNumber vs \<noteq> - 1" "no_wrap ops ?vs'"
    using "2.prems" by simp_all
  have step: "versionSet.nextFileNumber vs < versionSet.nextFileNumber ?vs'"
    using nw(1) by (simp add: nextFileNum_def Let_def word64_less_succ)
  have IH: "sorted_wrt (<) (fst (run_alloc ops ?vs')) \<and>
   (\<forall>x \<in> set (fst (run_alloc ops ?vs')).
      versionSet.nextFileNumber ?vs' \<le> x \<and>
      x < versionSet.nextFileNumber (snd (run_alloc ops ?vs'))) \<and>
   versionSet.nextFileNumber ?vs' \<le> versionSet.nextFileNumber (snd (run_alloc ops ?vs'))"
    using "2.IH"[of "fst (nextFileNum vs)" ?vs'] nw(2) by (simp add: nextFileNum_def Let_def)
  have eq: "run_alloc (OpNext # ops) vs =
      (versionSet.nextFileNumber vs # fst (run_alloc ops ?vs'), snd (run_alloc ops ?vs'))"
    by (simp add: nextFileNum_def Let_def split: prod.splits)
  show ?case unfolding eq using IH step by (auto simp: less_le_trans)
next
  case (3 n ops vs)
  have nw: "n \<noteq> - 1" "no_wrap ops (markFileNumUsed vs n)"
    using "3.prems" by simp_all
  from "3.IH"[OF nw(2)] markFileNumUsed_mono[OF nw(1), of vs]
  show ?case by auto
qed

text \<open>
  C7, as stated, fails at the top of the 64-bit range: marking file number \<open>2^64 - 1\<close> as
  used sets the counter to 0, which is not above it; and \<open>nextFileNum\<close> on a counter of
  \<open>2^64 - 1\<close> returns it and leaves the counter at 0, below the number just handed out.
\<close>

theorem file_number_wraps:
  "versionSet.nextFileNumber
     (markFileNumUsed (zeroVersionSet\<lparr>versionSet.nextFileNumber := 2\<rparr>) 0xFFFFFFFFFFFFFFFF) = 0 \<and>
   \<not> 0xFFFFFFFFFFFFFFFF <
       versionSet.nextFileNumber
         (markFileNumUsed (zeroVersionSet\<lparr>versionSet.nextFileNumber := 2\<rparr>) 0xFFFFFFFFFFFFFFFF) \<and>
   fst (nextFileNum (zeroVersionSet\<lparr>versionSet.nextFileNumber := 0xFFFFFFFFFFFFFFFF\<rparr>))
     = 0xFFFFFFFFFFFFFFFF \<and>
   versionSet.nextFileNumber
     (snd (nextFileNum (zeroVersionSet\<lparr>versionSet.nextFileNumber := 0xFFFFFFFFFFFFFFFF\<rparr>))) = 0"
  by (simp add: markFileNumUsed_def nextFileNum_def zeroVersionSet_def Let_def)

text \<open>
  C7 (amended): \<open>nextFileNum\<close> returns the current counter and adds one to it modulo
  \<open>2^64\<close>; for every \<open>n\<close> other than \<open>2^64 - 1\<close>, after \<open>markFileNumUsed n\<close> the counter is
  above \<open>n\<close>, and the version set is unchanged when the counter was above \<open>n\<close> already; and
  over any run of the two operations in which the counter does not wrap, the counter never
  decreases and the numbers handed out are strictly increasing, each at least the counter
  at the start and below the counter at the end, so none is handed out twice.
\<close>

theorem file_numbers_increase:
  "fst (nextFileNum vs) = versionSet.nextFileNumber vs \<and>
   snd (nextFileNum vs) = vs\<lparr>versionSet.nextFileNumber := versionSet.nextFileNumber vs + 1\<rparr> \<and>
   (n \<noteq> - 1 \<longrightarrow> n < versionSet.nextFileNumber (markFileNumUsed vs n)) \<and>
   (n < versionSet.nextFileNumber vs \<longrightarrow> markFileNumUsed vs n = vs) \<and>
   (no_wrap ops vs \<longrightarrow>
      sorted_wrt (<) (fst (run_alloc ops vs)) \<and>
      (\<forall>x \<in> set (fst (run_alloc ops vs)).
         versionSet.nextFileNumber vs \<le> x \<and>
         x < versionSet.nextFileNumber (snd (run_alloc ops vs))) \<and>
      versionSet.nextFileNumber vs \<le> versionSet.nextFileNumber (snd (run_alloc ops vs)))"
  using markFileNumUsed_gt[of n vs] markFileNumUsed_same[of n vs] run_alloc_mono[of ops vs]
  by (simp add: nextFileNum_def Let_def)

theorem file_numbers_increase_witness:
  "(7::uint64) \<noteq> - 1 \<and>
   7 < versionSet.nextFileNumber
         (markFileNumUsed (zeroVersionSet\<lparr>versionSet.nextFileNumber := 2\<rparr>) 7) \<and>
   (1::uint64) < versionSet.nextFileNumber (zeroVersionSet\<lparr>versionSet.nextFileNumber := 2\<rparr>) \<and>
   markFileNumUsed (zeroVersionSet\<lparr>versionSet.nextFileNumber := 2\<rparr>) 1
     = zeroVersionSet\<lparr>versionSet.nextFileNumber := 2\<rparr> \<and>
   no_wrap [OpNext, OpMark 7, OpNext] (zeroVersionSet\<lparr>versionSet.nextFileNumber := 2\<rparr>) \<and>
   fst (run_alloc [OpNext, OpMark 7, OpNext] (zeroVersionSet\<lparr>versionSet.nextFileNumber := 2\<rparr>))
     = [2, 8] \<and>
   sorted_wrt (<)
     (fst (run_alloc [OpNext, OpMark 7, OpNext] (zeroVersionSet\<lparr>versionSet.nextFileNumber := 2\<rparr>)))"
  using file_numbers_increase[of "zeroVersionSet\<lparr>versionSet.nextFileNumber := 2\<rparr>" 7
          "[OpNext, OpMark 7, OpNext]"]
        file_numbers_increase[of "zeroVersionSet\<lparr>versionSet.nextFileNumber := 2\<rparr>" 1 "[]"]
  by (simp add: markFileNumUsed_def nextFileNum_def zeroVersionSet_def Let_def)

subsection \<open>Installing a version\<close>

lemma unrefLocked_facts:
  assumes "distinct (versions (vset w))" "\<forall>u\<in>set (versions (vset w)). 0 < refs (vstore w u)"
  shows "refs (vstore (unrefLocked w b) b) = refs (vstore w b) - 1"
    and "u \<noteq> b \<Longrightarrow> vstore (unrefLocked w b) u = vstore w u"
    and "distinct (versions (vset (unrefLocked w b)))"
    and "set (versions (vset (unrefLocked w b))) \<subseteq> set (versions (vset w))"
    and "\<forall>u\<in>set (versions (vset (unrefLocked w b))). 0 < refs (vstore (unrefLocked w b) u)"
  using assms by (auto simp: unrefLocked_def Let_def dest: notin_set_remove1 split: if_splits)

text \<open>
  C6: on a version list whose members are distinct and all referenced, \<open>append\<close> panics
  when its argument has a nonzero reference count; otherwise it returns with the argument
  as the last node of the list, which is what \<open>currentVersion\<close> returns, holding exactly
  one reference; the version that was current before has lost one reference, no other
  version is touched, and the members of the list are again distinct and all referenced.
\<close>

theorem append_installs_current:
  assumes "distinct (versions (vset w))"
    and "\<forall>u\<in>set (versions (vset w)). 0 < refs (vstore w u)"
  shows "(refs (vstore w v) \<noteq> 0 \<longrightarrow>
            append_vs w v = Inl ''pebble: version should be unreferenced'') \<and>
         (refs (vstore w v) = 0 \<longrightarrow>
            (\<exists>w'. append_vs w v = Inr w' \<and>
               currentVersion (vset w') = Some v \<and>
               last (versions (vset w')) = v \<and>
               refs (vstore w' v) = 1 \<and>
               (\<forall>b. currentVersion (vset w) = Some b \<longrightarrow>
                    refs (vstore w' b) = refs (vstore w b) - 1) \<and>
               (\<forall>u. u \<noteq> v \<longrightarrow> currentVersion (vset w) \<noteq> Some u \<longrightarrow>
                    vstore w' u = vstore w u) \<and>
               distinct (versions (vset w')) \<and>
               (\<forall>u\<in>set (versions (vset w')). 0 < refs (vstore w' u))))"
proof (intro conjI impI)
  assume "refs (vstore w v) \<noteq> 0"
  then show "append_vs w v = Inl ''pebble: version should be unreferenced''"
    by (simp add: append_vs_def)
next
  assume z: "refs (vstore w v) = 0"
  then have fresh: "v \<notin> set (versions (vset w))"
    using assms(2) by auto
  show "\<exists>w'. append_vs w v = Inr w' \<and>
               currentVersion (vset w') = Some v \<and>
               last (versions (vset w')) = v \<and>
               refs (vstore w' v) = 1 \<and>
               (\<forall>b. currentVersion (vset w) = Some b \<longrightarrow>
                    refs (vstore w' b) = refs (vstore w b) - 1) \<and>
               (\<forall>u. u \<noteq> v \<longrightarrow> currentVersion (vset w) \<noteq> Some u \<longrightarrow>
                    vstore w' u = vstore w u) \<and>
               distinct (versions (vset w')) \<and>
               (\<forall>u\<in>set (versions (vset w')). 0 < refs (vstore w' u))"
  proof (cases "versions (vset w) = []")
    case True
    then show ?thesis using z
      by (simp add: append_vs_def empty_vl_def back_vl_def ref_def pushBack_def currentVersion_def)
  next
    case False
    let ?b = "last (versions (vset w))"
    let ?w1 = "unrefLocked w ?b"
    have bin: "?b \<in> set (versions (vset w))" using False by simp
    then have bv: "?b \<noteq> v" using fresh by auto
    note U = unrefLocked_facts[OF assms, where b = ?b]
    have vnot: "v \<notin> set (versions (vset ?w1))" using U(4) fresh by auto
    have rv: "refs (vstore ?w1 v) = 0" using U(2)[of v] bv z by simp
    have eq: "append_vs w v =
        Inr ((ref ?w1 v)\<lparr>vset := (vset (ref ?w1 v))
               \<lparr>versions := pushBack (versions (vset (ref ?w1 v))) v\<rparr>\<rparr>)"
      using False z by (simp add: append_vs_def empty_vl_def back_vl_def Let_def)
    show ?thesis
      unfolding eq using U(1,3,5) U(2) vnot rv bv False
      by (auto simp: ref_def pushBack_def currentVersion_def back_vl_def)
  qed
qed

theorem append_installs_current_witness:
  "distinct (versions (vset demo_world)) \<and>
   refs (vstore demo_world 0) = 1 \<and>
   refs (vstore demo_world 1) = 0 \<and>
   (\<exists>w'. append_vs demo_world 1 = Inr w' \<and>
         currentVersion (vset w') = Some 1 \<and>
         versions (vset w') = [1] \<and>
         refs (vstore w' 1) = 1 \<and>
         refs (vstore w' 0) = 0) \<and>
   append_vs (ref demo_world 1) 1 = Inl ''pebble: version should be unreferenced''"
  using append_installs_current[of demo_world 1] append_installs_current[of "ref demo_world 1" 1]
  by (simp add: demo_world_def zeroVersionSet_def append_vs_def empty_vl_def back_vl_def
        unrefLocked_def ref_def pushBack_def currentVersion_def Let_def)

subsection \<open>Validation of the edit's log number\<close>

lemma io_then_no_panic:
  assumes "\<And>w'. fst (k w') \<noteq> Panicked msg"
  shows "fst (io_then e ev k w) \<noteq> Panicked msg"
  using assms by (simp add: io_then_def split: prod.splits option.splits)

lemma install_no_validation_panic:
  "fst (install ve nv w) \<noteq> Panicked ''pebble: inconsistent versionEdit logNumber''"
  by (simp add: install_def append_vs_def Let_def split: sum.splits)

lemma write_and_install_no_validation_panic:
  "fst (write_and_install e dir ve nv w) \<noteq> Panicked ''pebble: inconsistent versionEdit logNumber''"
proof (cases "manifest (vset w)")
  case None
  then show ?thesis by (simp add: write_and_install_def)
next
  case (Some m)
  have tail: "fst ((case manifestFile (vset w3) of
                           None \<Rightarrow> (Panicked ''nil pointer dereference'', w3)
                         | Some f \<Rightarrow>
                             io_then e (EvFileSync f)
                               (io_then e (EvSetCurrent dir (manifestFileNumber (vset w3)))
                                  (install ve nv)) w3))
              \<noteq> Panicked ''pebble: inconsistent versionEdit logNumber''" for w3
  proof (cases "manifestFile (vset w3)")
    case None
    then show ?thesis by simp
  next
    case (Some f)
    show ?thesis unfolding Some option.case
      by (intro io_then_no_panic install_no_validation_panic)
  qed
  show ?thesis
    unfolding write_and_install_def Some option.case
    by (intro io_then_no_panic tail)
qed

lemma logAndApply_in_range:
  assumes c: "\<not> (versionEdit.logNumber ve \<noteq> 0 \<and>
         (versionEdit.logNumber ve < versionSet.logNumber (vset w) \<or>
          versionSet.nextFileNumber (vset w) \<le> versionEdit.logNumber ve))"
  shows "fst (logAndApply e dir w ve) \<noteq> Panicked ''pebble: inconsistent versionEdit logNumber''"
proof -
  define ve1 where "ve1 = ve\<lparr>versionEdit.nextFileNumber := versionSet.nextFileNumber (vset w),
                     lastSequence := logSeqNum (vset w)\<rparr>"
  show ?thesis
  proof (cases "apply_result e [ve1] (current_files w)")
    case (Inl err)
    then show ?thesis using c by (simp add: logAndApply_def Let_def ve1_def)
  next
    case (Inr fs)
    obtain nv w0 where nv: "new_version w fs = (nv, w0)" by (cases "new_version w fs")
    obtain cr w1 where cm: "(if manifest (vset w0) = None then createManifest e dir w0
                           else (None, w0)) = (cr, w1)"
      by (cases "(if manifest (vset w0) = None then createManifest e dir w0 else (None, w0))")
    have c': "(versionEdit.logNumber ve \<noteq> 0 \<and>
         (versionEdit.logNumber ve < versionSet.logNumber (vset w) \<or>
          versionSet.nextFileNumber (vset w) \<le> versionEdit.logNumber ve)) = False"
      using c by blast
    have eq: "logAndApply e dir w ve =
       (case cr of Some err \<Rightarrow> (Returned (Some err), w1, ve1)
        | None \<Rightarrow> (case write_and_install e dir ve1 nv w1 of (r, w2) \<Rightarrow> (r, w2, ve1)))"
      unfolding logAndApply_def Let_def ve1_def[symmetric] c' if_False Inr sum.case nv prod.case cm
      by (cases cr) simp_all
    obtain r w2 where wi: "write_and_install e dir ve1 nv w1 = (r, w2)"
      by (cases "write_and_install e dir ve1 nv w1")
    have "r \<noteq> Panicked ''pebble: inconsistent versionEdit logNumber''"
      using write_and_install_no_validation_panic[of e dir ve1 nv w1] unfolding wi by simp
    then show ?thesis
      unfolding eq wi by (cases cr) simp_all
  qed
qed

text \<open>
  C4: when the edit's log number is not 0 and lies outside
  \<open>[vs.logNumber, vs.nextFileNumber)\<close>, \<open>logAndApply\<close> panics with the inconsistent log
  number message before it changes anything; when the edit's log number is 0, or lies in
  that interval, \<open>logAndApply\<close> never ends in that panic.
\<close>

theorem logAndApply_validates_logNumber:
  "(versionEdit.logNumber ve \<noteq> 0 \<and>
      \<not> (versionSet.logNumber (vset w) \<le> versionEdit.logNumber ve \<and>
         versionEdit.logNumber ve < versionSet.nextFileNumber (vset w)) \<longrightarrow>
      logAndApply e dir w ve =
        (Panicked ''pebble: inconsistent versionEdit logNumber'', w, ve)) \<and>
   (versionEdit.logNumber ve = 0 \<or>
      (versionSet.logNumber (vset w) \<le> versionEdit.logNumber ve \<and>
       versionEdit.logNumber ve < versionSet.nextFileNumber (vset w)) \<longrightarrow>
      fst (logAndApply e dir w ve) \<noteq> Panicked ''pebble: inconsistent versionEdit logNumber'')"
proof (intro conjI impI)
  assume "versionEdit.logNumber ve \<noteq> 0 \<and>
      \<not> (versionSet.logNumber (vset w) \<le> versionEdit.logNumber ve \<and>
         versionEdit.logNumber ve < versionSet.nextFileNumber (vset w))"
  then show "logAndApply e dir w ve =
        (Panicked ''pebble: inconsistent versionEdit logNumber'', w, ve)"
    by (auto simp: logAndApply_def not_le not_less)
next
  assume "versionEdit.logNumber ve = 0 \<or>
      (versionSet.logNumber (vset w) \<le> versionEdit.logNumber ve \<and>
       versionEdit.logNumber ve < versionSet.nextFileNumber (vset w))"
  then have "\<not> (versionEdit.logNumber ve \<noteq> 0 \<and>
         (versionEdit.logNumber ve < versionSet.logNumber (vset w) \<or>
          versionSet.nextFileNumber (vset w) \<le> versionEdit.logNumber ve))"
    by (auto simp: not_le not_less)
  then show "fst (logAndApply e dir w ve) \<noteq>
        Panicked ''pebble: inconsistent versionEdit logNumber''"
    by (rule logAndApply_in_range)
qed

theorem logAndApply_validates_logNumber_witness:
  "logAndApply demo_env ''db'' demo_world (zeroEdit\<lparr>versionEdit.logNumber := 5\<rparr>) =
     (Panicked ''pebble: inconsistent versionEdit logNumber'', demo_world,
      zeroEdit\<lparr>versionEdit.logNumber := 5\<rparr>) \<and>
   logAndApply demo_env ''db'' demo_world (zeroEdit\<lparr>versionEdit.logNumber := 2\<rparr>) =
     (Panicked ''pebble: inconsistent versionEdit logNumber'', demo_world,
      zeroEdit\<lparr>versionEdit.logNumber := 2\<rparr>) \<and>
   fst (logAndApply demo_env ''db'' demo_world (zeroEdit\<lparr>versionEdit.logNumber := 4\<rparr>)) \<noteq>
     Panicked ''pebble: inconsistent versionEdit logNumber'' \<and>
   fst (logAndApply demo_env ''db'' demo_world zeroEdit) \<noteq>
     Panicked ''pebble: inconsistent versionEdit logNumber''"
  using logAndApply_validates_logNumber[of "zeroEdit\<lparr>versionEdit.logNumber := 5\<rparr>" demo_world
          demo_env "''db''"]
        logAndApply_validates_logNumber[of "zeroEdit\<lparr>versionEdit.logNumber := 2\<rparr>" demo_world
          demo_env "''db''"]
        logAndApply_validates_logNumber[of "zeroEdit\<lparr>versionEdit.logNumber := 4\<rparr>" demo_world
          demo_env "''db''"]
        logAndApply_validates_logNumber[of zeroEdit demo_world demo_env "''db''"]
  by (simp add: demo_world_def zeroVersionSet_def zeroEdit_def)

subsection \<open>Order of the manifest write, the CURRENT update and the installation\<close>












subsection \<open>The completeness check of load\<close>

lemma load_install_result:
  "fst (load_install e bve w) =
     (case apply_result e bve [] of Inl err \<Rightarrow> Returned (Some err) | Inr fs \<Rightarrow> Returned None)"
  by (simp add: load_install_def nextFileNum_def new_version_def append_vs_def Let_def
      split: sum.splits prod.splits)

text \<open>
  C5 (amended): when CURRENT and the manifest are read and every record is replayed
  without error, and the log number accumulated is 0, then \<open>load\<close> fails with the
  incomplete manifest error if the next file number is not 2; if it is 2 the check passes
  (a freshly created DB) and \<open>load\<close> returns what applying the accumulated edits returns:
  its error, or \<open>nil\<close>.
\<close>

theorem load_checks_manifest_complete:
  assumes "current_file le = Inr content" "current_stat_err le = None"
    and "content \<noteq> []" "length content \<le> 4096"
    and "current_read_err le = None" "last content = 10"
    and "manifest_file le dir (butlast content) = Inr recs"
    and "replay recs []
           ((vset w)\<lparr>versionSet.dirname := dir, cmpName := cn, versions := [],
                     versionSet.nextFileNumber := 2\<rparr>) = (None, bve, vs)"
    and "versionSet.logNumber vs = 0"
  shows "(versionSet.nextFileNumber vs \<noteq> 2 \<longrightarrow>
            fst (load e le dir cn w) = Returned (Some IncompleteManifest)) \<and>
         (versionSet.nextFileNumber vs = 2 \<longrightarrow>
            fst (load e le dir cn w) =
              (case apply_result e bve [] of
                 Inl err \<Rightarrow> Returned (Some err)
               | Inr fs \<Rightarrow> Returned None))"
proof -
  let ?w0 = "w\<lparr>vset := (vset w)\<lparr>versionSet.dirname := dir, cmpName := cn, versions := [],
                                    versionSet.nextFileNumber := 2\<rparr>\<rparr>"
  have "load e le dir cn w = load_finish e bve (?w0\<lparr>vset := vs\<rparr>)"
    using assms by (simp add: load_def Let_def)
  then show ?thesis
    using assms(9) by (simp add: load_finish_def load_install_result)
qed

text \<open>
  C5, as stated, fails: a manifest whose only record carries the comparator name and adds
  two level 1 files with overlapping key ranges replays to log number 0 and next file
  number 2, the check after the loop passes, and \<open>load\<close> still returns an error, because
  applying the accumulated edits fails on the overlap.
\<close>

theorem load_fresh_manifest_apply_fails:
  "fst (replay [RecEdit (zeroEdit\<lparr>comparatorName := ''cmp'',
                                   newFiles := [(1, file4), (1, file5)]\<rparr>)] []
         (zeroVersionSet\<lparr>versionSet.dirname := ''db'', cmpName := ''cmp'', versions := [],
                          versionSet.nextFileNumber := 2\<rparr>)) = None \<and>
   versionSet.logNumber (snd (snd (replay [RecEdit (zeroEdit\<lparr>comparatorName := ''cmp'',
                                   newFiles := [(1, file4), (1, file5)]\<rparr>)] []
         (zeroVersionSet\<lparr>versionSet.dirname := ''db'', cmpName := ''cmp'', versions := [],
                          versionSet.nextFileNumber := 2\<rparr>)))) = 0 \<and>
   versionSet.nextFileNumber (snd (snd (replay [RecEdit (zeroEdit\<lparr>comparatorName := ''cmp'',
                                   newFiles := [(1, file4), (1, file5)]\<rparr>)] []
         (zeroVersionSet\<lparr>versionSet.dirname := ''db'', cmpName := ''cmp'', versions := [],
                          versionSet.nextFileNumber := 2\<rparr>)))) = 2 \<and>
   fst (load spec_env overlapping_files ''db'' ''cmp'' fresh_world) =
     Returned (Some VersionInvariant)"
  by (simp add: load_def load_finish_def load_install_def overlapping_files_def
      spec_env_def spec_apply_def level_files_def sort_by_def numLevels_def upt_rec
      InternalCompare_def file4_def file5_def
      fresh_world_def zeroVersionSet_def zeroEdit_def
      markFileNumUsed_def nextFileNum_def Let_def)

theorem load_checks_manifest_complete_witness:
  "fst (load demo_env no_log_number_files ''db'' ''cmp'' fresh_world) =
     Returned (Some IncompleteManifest) \<and>
   fst (load spec_env snapshot_only_files ''db'' ''cmp'' fresh_world) = Returned None \<and>
   fst (load spec_env overlapping_files ''db'' ''cmp'' fresh_world) =
     Returned (Some VersionInvariant)"
  using load_checks_manifest_complete[where le = no_log_number_files and content = "[0x4D, 0x0A]" and dir = "''db''"
          and recs = "[RecEdit (zeroEdit\<lparr>versionEdit.nextFileNumber := 7\<rparr>)]" and w = fresh_world and cn = "''cmp''"
          and bve = "[zeroEdit\<lparr>versionEdit.nextFileNumber := 7\<rparr>]"
          and vs = "zeroVersionSet\<lparr>versionSet.dirname := ''db'', cmpName := ''cmp'', versions := [],
                          versionSet.nextFileNumber := 7\<rparr>" and e = demo_env]
        load_checks_manifest_complete[where le = snapshot_only_files and content = "[0x4D, 0x0A]" and dir = "''db''"
          and recs = "[RecEdit (zeroEdit\<lparr>comparatorName := ''cmp''\<rparr>)]" and w = fresh_world and cn = "''cmp''"
          and bve = "[zeroEdit\<lparr>comparatorName := ''cmp''\<rparr>]"
          and vs = "zeroVersionSet\<lparr>versionSet.dirname := ''db'', cmpName := ''cmp'', versions := [],
                          versionSet.nextFileNumber := 2\<rparr>" and e = spec_env]
        load_checks_manifest_complete[where le = overlapping_files and content = "[0x4D, 0x0A]" and dir = "''db''"
          and recs = "[RecEdit (zeroEdit\<lparr>comparatorName := ''cmp'',
                                   newFiles := [(1, file4), (1, file5)]\<rparr>)]" and w = fresh_world and cn = "''cmp''"
          and bve = "[zeroEdit\<lparr>comparatorName := ''cmp'',
                                   newFiles := [(1, file4), (1, file5)]\<rparr>]"
          and vs = "zeroVersionSet\<lparr>versionSet.dirname := ''db'', cmpName := ''cmp'', versions := [],
                          versionSet.nextFileNumber := 2\<rparr>" and e = spec_env]
  by (simp add: snapshot_only_files_def no_log_number_files_def overlapping_files_def
      spec_env_def spec_apply_def level_files_def sort_by_def numLevels_def upt_rec
      InternalCompare_def file4_def file5_def
      demo_env_def fresh_world_def zeroVersionSet_def zeroEdit_def Let_def)


section \<open>Properties of the DB\<close>

subsection \<open>writeLevel0Table\<close>

lemma do_io_DB_eq:
  "do_io e ev d = (r, d') \<longleftrightarrow> r = io_result e (trace d) ev \<and> d' = d\<lparr>trace := trace d @ [(ev, r)]\<rparr>"
  by (auto simp: do_io_def Let_def)








text \<open>
  C10: on a memtable with no entries \<open>writeLevel0Table\<close> returns the zero metadata and the
  error \<open>pebble: memtable empty\<close>; the only calls it makes are the iterator's \<open>Close\<close> and
  the \<open>Remove\<close> of the file name, so no table file is created and the disk gains no file;
  the allocated file number is not left in \<open>pendingOutputs\<close>.
\<close>

theorem writeLevel0Table_empty_memtable:
  "\<exists>r1 r2 d'.
     writeLevel0Table e [] d = ((zeroMeta, Some MemtableEmpty), d') \<and>
     trace d' = trace d @
        [(EvIterClose, r1),
         (EvRemove (dbFilename (DB.dirname d) fileTypeTable (versionSet.nextFileNumber (vset d))),
          r2)] \<and>
     disk d' \<subseteq> disk d \<and>
     pendingOutputs d' = pendingOutputs d - {versionSet.nextFileNumber (vset d)}"
  by (simp add: writeLevel0Table_def writeLevel0Table_body_def writeLevel0Table_deferred_def
      nextFileNum_def fs_Remove_def do_io_def firstError_def Let_def split: option.splits)

subsection \<open>Calls on a closed DB\<close>







end
